theory Spec2Isabelle
  imports Complex_Main "HOL-Library.Word" "HOL-Library.Multiset"
begin

section \<open>FFTConvolutionCostFunction: scoring of tile overlaps\<close>

text \<open>
  The values of the convolution output buffer are C++ \<open>double\<close>s. In this part of the
  development a finite double is read as the real number it denotes; the buffer
  \<open>(ptr, count)\<close> handed to \<open>maxFromArray\<close> is the list of its \<open>count\<close> elements.
\<close>

subsection \<open>maxFromArray\<close>

text \<open>\<open>std::numeric_limits<int64_t>::lowest()\<close>, converted to \<open>double\<close> (exactly).\<close>

definition int64_lowest :: real where
  "int64_lowest = - (2 ^ 63)"

text \<open>
  The loop \<open>for(i = 0; i < count; i++) if(ptr[i] > max) max = ptr[i];\<close> with the running
  maximum as accumulator.
\<close>

fun maxLoop :: "real list \<Rightarrow> real \<Rightarrow> real" where
  "maxLoop [] mx = mx"
| "maxLoop (v # vs) mx = maxLoop vs (if v > mx then v else mx)"

definition maxFromArray :: "real list \<Rightarrow> real" where
  "maxFromArray ptr = maxLoop ptr int64_lowest"

subsection \<open>GetValue and GetDerivative\<close>

text \<open>
  \<open>findFFTConvolutionAndMaxValue\<close> builds the two overlap images of a pair, runs the
  library's FFT convolution filter on them and reads the pixel buffer of its output.
  The images and the filter belong to the image library; \<open>conv overlap parameters\<close>
  stands for that output buffer. The function then adds the buffer's maximum to the
  residual, which it holds by reference.
\<close>

definition findFFTConvolutionAndMaxValue ::
  "('o \<Rightarrow> 'p \<Rightarrow> real list) \<Rightarrow> 'o \<Rightarrow> 'p \<Rightarrow> real \<Rightarrow> real" where
  "findFFTConvolutionAndMaxValue conv overlap parameters residual =
     (let maxValue = maxFromArray (conv overlap parameters)
      in residual + maxValue)"

text \<open>
  \<open>GetValue\<close> starts one task per element of \<open>m_Overlaps\<close>, waits for all of them and
  squares the residual. The tasks add to the residual under a lock, one at a time; the
  model runs them in the order of the list.
\<close>

definition GetValue :: "('o \<Rightarrow> 'p \<Rightarrow> real list) \<Rightarrow> 'o list \<Rightarrow> 'p \<Rightarrow> real" where
  "GetValue conv m_Overlaps parameters =
     (let residual = fold (\<lambda>overlap. findFFTConvolutionAndMaxValue conv overlap parameters)
                          m_Overlaps 0
      in residual * residual)"

datatype cpp_exception = StdException

text \<open>\<open>GetDerivative\<close> has the single statement \<open>throw std::exception();\<close>.\<close>

definition GetDerivative :: "'p \<Rightarrow> cpp_exception + 'd" where
  "GetDerivative parameters = Inl StdException"

subsection \<open>updateRegionBounds\<close>


text \<open>
  Conversion of a \<open>double\<close> to \<open>int64_t\<close> drops the fraction (rounds towards zero).
  Pixel coordinates are far from the ends of the 64-bit range, so \<open>int64_t\<close> is read
  as \<open>int\<close>.
\<close>

definition truncate_double :: "real \<Rightarrow> int" where
  "truncate_double r = (if 0 \<le> r then \<lfloor>r\<rfloor> else \<lceil>r\<rceil>)"






section \<open>CalculateBackground: background estimation\<close>

subsection \<open>Doubles\<close>

text \<open>
  The background vectors hold C++ \<open>double\<close>s, and a division by a zero count leaves a
  value that is not a number. A double is therefore a real number, an infinity or NaN.
  Operations on finite values are exact (rounding is not modelled) and zero has no
  sign; the results on infinities and NaN follow IEEE 754.
\<close>

datatype dbl = Num real | PosInf | NegInf | NaN

fun isFinite :: "dbl \<Rightarrow> bool" where
  "isFinite (Num r) = True"
| "isFinite PosInf = False"
| "isFinite NegInf = False"
| "isFinite NaN = False"

fun dneg :: "dbl \<Rightarrow> dbl" where
  "dneg (Num a) = Num (- a)"
| "dneg PosInf = NegInf"
| "dneg NegInf = PosInf"
| "dneg NaN = NaN"

fun dadd :: "dbl \<Rightarrow> dbl \<Rightarrow> dbl" where
  "dadd (Num a) (Num b) = Num (a + b)"
| "dadd NaN y = NaN"
| "dadd x NaN = NaN"
| "dadd PosInf NegInf = NaN"
| "dadd NegInf PosInf = NaN"
| "dadd PosInf y = PosInf"
| "dadd x PosInf = PosInf"
| "dadd NegInf y = NegInf"
| "dadd x NegInf = NegInf"

definition dsub :: "dbl \<Rightarrow> dbl \<Rightarrow> dbl" where
  "dsub x y = dadd x (dneg y)"

text \<open>\<open>inf_signed positive\<close> is the infinity of that sign.\<close>

definition inf_signed :: "bool \<Rightarrow> dbl" where
  "inf_signed positive = (if positive then PosInf else NegInf)"

fun dmul :: "dbl \<Rightarrow> dbl \<Rightarrow> dbl" where
  "dmul (Num a) (Num b) = Num (a * b)"
| "dmul NaN y = NaN"
| "dmul x NaN = NaN"
| "dmul (Num a) PosInf = (if a = 0 then NaN else inf_signed (0 < a))"
| "dmul (Num a) NegInf = (if a = 0 then NaN else inf_signed (a < 0))"
| "dmul PosInf (Num b) = (if b = 0 then NaN else inf_signed (0 < b))"
| "dmul NegInf (Num b) = (if b = 0 then NaN else inf_signed (b < 0))"
| "dmul PosInf PosInf = PosInf"
| "dmul PosInf NegInf = NegInf"
| "dmul NegInf PosInf = NegInf"
| "dmul NegInf NegInf = PosInf"

fun ddiv :: "dbl \<Rightarrow> dbl \<Rightarrow> dbl" where
  "ddiv (Num a) (Num b) =
     (if b = 0 then (if a = 0 then NaN else inf_signed (0 < a)) else Num (a / b))"
| "ddiv NaN y = NaN"
| "ddiv x NaN = NaN"
| "ddiv (Num a) PosInf = Num 0"
| "ddiv (Num a) NegInf = Num 0"
| "ddiv PosInf (Num b) = inf_signed (0 \<le> b)"
| "ddiv NegInf (Num b) = inf_signed (b < 0)"
| "ddiv PosInf PosInf = NaN"
| "ddiv PosInf NegInf = NaN"
| "ddiv NegInf PosInf = NaN"
| "ddiv NegInf NegInf = NaN"

primrec dsum :: "dbl list \<Rightarrow> dbl" where
  "dsum [] = Num 0"
| "dsum (x # xs) = dadd x (dsum xs)"

text \<open>
  Storing a \<open>double\<close> in a \<open>uint8_t\<close> drops the fraction. For a value outside the range
  of \<open>uint8_t\<close> C++ leaves the result open; the model gives what the x86-64 code of GCC
  and Clang stores: the low byte of the truncation to a 32-bit integer, and the low byte
  of \<open>0x80000000\<close> where that truncation does not fit or the value is not finite.
\<close>

definition double_to_uint8 :: "dbl \<Rightarrow> 8 word" where
  "double_to_uint8 d =
     (case d of
        Num r \<Rightarrow> (if - (2 ^ 31) - 1 < r \<and> r < 2 ^ 31
                  then word_of_int (truncate_double r) else 0)
      | PosInf \<Rightarrow> 0 | NegInf \<Rightarrow> 0 | NaN \<Rightarrow> 0)"

definition uint8_to_double :: "8 word \<Rightarrow> dbl" where
  "uint8_to_double v = Num (real_of_int (uint v))"

subsection \<open>The filter and its data\<close>

text \<open>
  An array of the selected attribute matrix holds \<open>uint8_t\<close> values or values of some
  other type; the \<open>dynamic_pointer_cast\<close> to \<open>DataArray<uint8_t>\<close> gives NULL on the
  latter.
\<close>

datatype data_array = UInt8Array "8 word list" | OtherArray

fun castUInt8 :: "data_array \<Rightarrow> 8 word list option" where
  "castUInt8 (UInt8Array img) = Some img"
| "castUInt8 OtherArray = None"

record attribute_matrix =
  tupleDimensions :: "nat \<times> nat \<times> nat"
  attributeArrays :: "(string \<times> data_array) list"

text \<open>
  The filter's members, with the part of the data structure it works on:
  \<open>attributeMatrix\<close> is the result of \<open>getAttributeMatrix(m_AttributeMatrixName)\<close>
  (\<open>None\<close> for NULL), \<open>BackgroundImage\<close> the created array (\<open>None\<close> before its
  creation), \<open>errorMessages\<close> the codes passed to \<open>notifyErrorMessage\<close> so far.
  \<open>creationError\<close> is the error condition that the framework's calls at the end of
  \<open>dataCheck\<close> leave when the data container is missing or the background attribute
  matrix or array cannot be created; it is 0 when they succeed.
\<close>

record filter =
  m_lowThresh :: int
  m_highThresh :: int
  m_SubtractBackground :: bool
  m_DivideBackground :: bool
  m_TotalPoints :: nat
  errorCondition :: int
  errorMessages :: "int list"
  attributeMatrix :: "attribute_matrix option"
  creationError :: int
  BackgroundImage :: "dbl list option"

datatype fault = NullPointerDereference | IntegerDivisionByZero

definition reportError :: "int \<Rightarrow> filter \<Rightarrow> filter" where
  "reportError code f = f\<lparr>errorCondition := code, errorMessages := errorMessages f @ [code]\<rparr>"

subsection \<open>dataCheck\<close>

text \<open>
  One pass of the loop over the array names: the cast of the array is kept in
  \<open>imagePtr\<close>, and a failed cast reports -76001 without leaving the loop.
\<close>

definition checkArray :: "data_array \<Rightarrow> 8 word list option \<times> filter \<Rightarrow> 8 word list option \<times> filter" where
  "checkArray a s =
     (let imagePtr = castUInt8 a
      in (imagePtr, if imagePtr = None then reportError (- 76001) (snd s) else snd s))"

text \<open>
  \<open>dataCheck\<close>. After the loop \<open>imagePtr\<close> is the cast of the last array, and NULL when
  there was no array; \<open>imagePtr->getNumberOfTuples()\<close> runs when no error was set.
\<close>

definition dataCheck :: "filter \<Rightarrow> fault + filter" where
  "dataCheck f0 =
     (let f = f0\<lparr>errorCondition := 0, m_TotalPoints := 0\<rparr>
      in case attributeMatrix f of
           None \<Rightarrow> Inr (reportError (- 76000) f)
         | Some am \<Rightarrow>
             (let looped = fold checkArray (map snd (attributeArrays am)) (None, f);
                  imagePtr = fst looped;
                  f1 = snd looped;
                  f2 = (if m_SubtractBackground f1 \<and> m_DivideBackground f1
                        then reportError (- 76002) f1 else f1)
              in if errorCondition f2 < 0 then Inr f2
                 else case imagePtr of
                        None \<Rightarrow> Inl NullPointerDereference
                      | Some img \<Rightarrow>
                          (let f3 = f2\<lparr>m_TotalPoints := length img\<rparr>
                           in if creationError f3 < 0
                              then Inr (f3\<lparr>errorCondition := creationError f3\<rparr>)
                              else Inr (f3\<lparr>BackgroundImage := Some []\<rparr>))))"

subsection \<open>Threshold-gated sum and average\<close>

definition inThreshold :: "int \<Rightarrow> int \<Rightarrow> 8 word \<Rightarrow> bool" where
  "inThreshold lo hi v = (lo \<le> uint v \<and> uint v \<le> hi)"

text \<open>The body of the loop over \<open>t\<close>, on the pair of vectors \<open>(background, counter)\<close>.\<close>

definition addPixel ::
  "int \<Rightarrow> int \<Rightarrow> 8 word list \<Rightarrow> nat \<Rightarrow> dbl list \<times> dbl list \<Rightarrow> dbl list \<times> dbl list" where
  "addPixel lo hi img t acc =
     (if inThreshold lo hi (img ! t)
      then ((fst acc)[t := dadd (fst acc ! t) (uint8_to_double (img ! t))],
            (snd acc)[t := dadd (snd acc ! t) (Num 1)])
      else acc)"

definition addImage ::
  "int \<Rightarrow> int \<Rightarrow> nat \<Rightarrow> 8 word list \<Rightarrow> dbl list \<times> dbl list \<Rightarrow> dbl list \<times> dbl list" where
  "addImage lo hi totalPoints img acc = fold (addPixel lo hi img) [0..<totalPoints] acc"

text \<open>The loop over the arrays; one that is not a \<open>uint8_t\<close> array is passed over.\<close>

fun sumImages ::
  "int \<Rightarrow> int \<Rightarrow> nat \<Rightarrow> data_array list \<Rightarrow> dbl list \<times> dbl list \<Rightarrow> dbl list \<times> dbl list" where
  "sumImages lo hi totalPoints [] acc = acc"
| "sumImages lo hi totalPoints (a # as) acc =
     (case castUInt8 a of
        Some img \<Rightarrow> sumImages lo hi totalPoints as (addImage lo hi totalPoints img acc)
      | None \<Rightarrow> sumImages lo hi totalPoints as acc)"

text \<open>\<open>background[j] = background[j] / counter[j]\<close> for every \<open>j\<close>.\<close>

definition averageBackground :: "nat \<Rightarrow> dbl list \<Rightarrow> dbl list \<Rightarrow> dbl list" where
  "averageBackground totalPoints counter background =
     fold (\<lambda>j bg. bg[j := ddiv (bg ! j) (counter ! j)]) [0..<totalPoints] background"

definition averagedBackground :: "int \<Rightarrow> int \<Rightarrow> nat \<Rightarrow> data_array list \<Rightarrow> dbl list" where
  "averagedBackground lo hi totalPoints arrays =
     (let summed = sumImages lo hi totalPoints arrays
                     (replicate totalPoints (Num 0), replicate totalPoints (Num 0))
      in averageBackground totalPoints (snd summed) (fst summed))"

definition contributingCount :: "int \<Rightarrow> int \<Rightarrow> nat \<Rightarrow> data_array list \<Rightarrow> dbl list" where
  "contributingCount lo hi totalPoints arrays =
     snd (sumImages lo hi totalPoints arrays
            (replicate totalPoints (Num 0), replicate totalPoints (Num 0)))"

subsection \<open>The least-squares system\<close>

text \<open>
  \<open>xval\<close> and \<open>yval\<close> are C++ \<open>int\<close>s (32 bits) and so are their products, which are
  converted to \<open>double\<close> when stored in the matrix. \<open>i\<close> is below \<open>m_TotalPoints\<close> and
  \<open>dim0\<close> is \<open>dims[0]\<close>; both are not negative, so that \<open>/\<close> and \<open>%\<close> are \<open>div\<close> and
  \<open>mod\<close>. A product beyond 32 bits wraps around (C++ leaves it open).
\<close>

definition int_to_double :: "32 word \<Rightarrow> dbl" where
  "int_to_double v = Num (real_of_int (sint v))"

definition designRow :: "nat \<Rightarrow> nat \<Rightarrow> dbl list" where
  "designRow dim0 i =
     (let xval = (word_of_nat (i div dim0) :: 32 word);
          yval = (word_of_nat (i mod dim0) :: 32 word)
      in [Num 1, int_to_double xval, int_to_double yval, int_to_double (xval * yval),
          int_to_double (xval * xval), int_to_double (yval * yval)])"

definition designMatrix :: "nat \<Rightarrow> nat \<Rightarrow> dbl list list" where
  "designMatrix dim0 totalPoints = map (designRow dim0) [0..<totalPoints]"

definition rightHandSide :: "nat \<Rightarrow> dbl list \<Rightarrow> dbl list" where
  "rightHandSide totalPoints background = map (\<lambda>i. background ! i) [0..<totalPoints]"

subsection \<open>The centred surface\<close>

text \<open>The matrix-vector product \<open>A * p\<close>, \<open>Bcalc.mean()\<close> and the subtraction of the mean.\<close>

definition dot :: "dbl list \<Rightarrow> dbl list \<Rightarrow> dbl" where
  "dot row p = dsum (map2 dmul row p)"

definition matVec :: "dbl list list \<Rightarrow> dbl list \<Rightarrow> dbl list" where
  "matVec A p = map (\<lambda>row. dot row p) A"

definition mean :: "dbl list \<Rightarrow> dbl" where
  "mean v = ddiv (dsum v) (Num (real (length v)))"

definition centredSurface :: "dbl list list \<Rightarrow> dbl list \<Rightarrow> dbl list" where
  "centredSurface A p =
     (let Bcalc = matVec A p;
          average = mean Bcalc
      in map (\<lambda>v. dsub v average) Bcalc)"

subsection \<open>Correction of the images\<close>

text \<open>
  The subtraction is computed in \<open>double\<close> and stored in the \<open>uint8_t\<close> pixel; the two
  comparisons that follow read the pixel back.
\<close>

definition subtractPixel :: "dbl \<Rightarrow> 8 word \<Rightarrow> 8 word" where
  "subtractPixel surface pixel =
     (let v = double_to_uint8 (dsub (uint8_to_double pixel) surface);
          v1 = (if uint v < 0 then 0 else v);
          v2 = (if uint v1 > 255 then 255 else v1)
      in v2)"

definition subtractBackground :: "int \<Rightarrow> int \<Rightarrow> nat \<Rightarrow> dbl list \<Rightarrow> 8 word list \<Rightarrow> 8 word list" where
  "subtractBackground lo hi totalPoints Bcalc img =
     fold (\<lambda>t img. if inThreshold lo hi (img ! t)
                   then img[t := subtractPixel (Bcalc ! t) (img ! t)] else img)
          [0..<totalPoints] img"

definition dividePixel :: "dbl \<Rightarrow> 8 word \<Rightarrow> 8 word" where
  "dividePixel surface pixel = double_to_uint8 (ddiv (uint8_to_double pixel) surface)"

definition divideBackground :: "int \<Rightarrow> int \<Rightarrow> nat \<Rightarrow> dbl list \<Rightarrow> 8 word list \<Rightarrow> 8 word list" where
  "divideBackground lo hi totalPoints Bcalc img =
     fold (\<lambda>t img. if inThreshold lo hi (img ! t)
                   then img[t := dividePixel (Bcalc ! t) (img ! t)] else img)
          [0..<totalPoints] img"

fun correctArray :: "(8 word list \<Rightarrow> 8 word list) \<Rightarrow> data_array \<Rightarrow> data_array" where
  "correctArray g (UInt8Array img) = UInt8Array (g img)"
| "correctArray g OtherArray = OtherArray"

definition correctArrays ::
  "(8 word list \<Rightarrow> 8 word list) \<Rightarrow> (string \<times> data_array) list \<Rightarrow> (string \<times> data_array) list" where
  "correctArrays g arrays = map (\<lambda>na. (fst na, correctArray g (snd na))) arrays"

subsection \<open>execute\<close>

text \<open>
  \<open>solve A B\<close> stands for \<open>A.colPivHouseholderQr().solve(B)\<close> of the linear algebra
  library. \<open>execute\<close> returns after \<open>dataCheck\<close> when the error condition is negative.
  The local \<open>err\<close> is 0 throughout, so the branch on \<open>err < 0\<close> is never taken.
  The division \<open>i / dims[0]\<close> is an integer division; it traps when \<open>dims[0]\<close> is zero.
\<close>

definition execute :: "(dbl list list \<Rightarrow> dbl list \<Rightarrow> dbl list) \<Rightarrow> filter \<Rightarrow> fault + filter" where
  "execute solve f0 =
     (case dataCheck f0 of
        Inl crash \<Rightarrow> Inl crash
      | Inr f1 \<Rightarrow>
          if errorCondition f1 < 0 then Inr f1
          else case attributeMatrix f1 of
                 None \<Rightarrow> Inl NullPointerDereference
               | Some am \<Rightarrow>
                   (let f = f1\<lparr>errorCondition := 0\<rparr>;
                        lo = m_lowThresh f; hi = m_highThresh f; n = m_TotalPoints f;
                        dim0 = fst (tupleDimensions am);
                        background = averagedBackground lo hi n (map snd (attributeArrays am))
                    in if 0 < n \<and> dim0 = 0 then Inl IntegerDivisionByZero
                       else
                         (let A = designMatrix dim0 n;
                              B = rightHandSide n background;
                              p = solve A B;
                              Bcalc = centredSurface A p;
                              arrays1 = (if m_SubtractBackground f
                                         then correctArrays (subtractBackground lo hi n Bcalc)
                                                (attributeArrays am)
                                         else attributeArrays am);
                              arrays2 = (if m_DivideBackground f
                                         then correctArrays (divideBackground lo hi n Bcalc) arrays1
                                         else arrays1)
                          in Inr (f\<lparr>BackgroundImage := Some Bcalc,
                                    attributeMatrix := Some (am\<lparr>attributeArrays := arrays2\<rparr>)\<rparr>))))"



subsection \<open>Example inputs\<close>

text \<open>A solver for the examples: it answers every system with the same six coefficients.\<close>

definition constantSolver :: "dbl list list \<Rightarrow> dbl list \<Rightarrow> dbl list" where
  "constantSolver A B = [Num 1, Num 2, Num 3, Num 0, Num 0, Num 1]"


text \<open>Convolution outputs for the examples: three values for overlap 0, two for any other.\<close>

definition exampleConv :: "nat \<Rightarrow> unit \<Rightarrow> real list" where
  "exampleConv overlap parameters = (if overlap = 0 then [1, 3, 2] else [5, 4])"

section \<open>Properties of the cost function\<close>

subsection \<open>maxFromArray\<close>

lemma maxLoop_ge_acc: "mx \<le> maxLoop vs mx"
proof (induction vs arbitrary: mx)
  case Nil
  show ?case by simp
next
  case (Cons v vs)
  have "mx \<le> (if v > mx then v else mx)" by simp
  also have "\<dots> \<le> maxLoop vs (if v > mx then v else mx)" by (rule Cons.IH)
  finally show ?case by simp
qed

lemma maxLoop_eq_max: "maxLoop vs mx = Max (insert mx (set vs))"
proof (induction vs arbitrary: mx)
  case Nil
  show ?case by simp
next
  case (Cons v vs)
  have "maxLoop (v # vs) mx = Max (insert (max v mx) (set vs))"
    by (simp add: Cons.IH max_def)
  also have "\<dots> = Max (insert mx (insert v (set vs)))"
    by (cases "set vs = {}") (simp_all add: max.commute max.left_commute)
  finally show ?case by simp
qed

lemma maxFromArray_empty: "maxFromArray [] = int64_lowest"
  by (simp add: maxFromArray_def)

text \<open>
  On a buffer that is not empty the result is the larger of the greatest element and
  the start value, hence the greatest element when that is not below the start value.
\<close>

lemma maxFromArray_nonempty:
  assumes "ptr \<noteq> []"
  shows "maxFromArray ptr = max int64_lowest (Max (set ptr))"
  using assms by (simp add: maxFromArray_def maxLoop_eq_max)

lemma maxFromArray_Max:
  assumes "ptr \<noteq> []" and "int64_lowest \<le> Max (set ptr)"
  shows "maxFromArray ptr = Max (set ptr)"
  using assms by (simp add: maxFromArray_nonempty)

text \<open>
  Below the start value the loop never replaces it: the buffer holding only \<open>-2^64\<close>
  gives \<open>-2^63\<close>. No convolution of byte-valued tiles is that low.
\<close>

lemma maxFromArray_below_start_value:
  "maxFromArray [- (2 ^ 64)] = - (2 ^ 63)"
  by (simp add: maxFromArray_def int64_lowest_def)

text \<open>
  Claim C10. \<open>maxFromArray\<close> has no error path: for every buffer it returns the greatest
  of the start value, the lowest \<open>int64_t\<close> value as a \<open>double\<close>, and the elements. For a
  buffer that is not empty and whose greatest element is not below that start value, as
  every convolution output of byte-valued tiles is, it returns the greatest element. For
  the empty buffer it returns the start value \<open>-2^63\<close>, and
  \<open>findFFTConvolutionAndMaxValue\<close> adds that value to the residual as the pair's score.
\<close>

theorem maxFromArray_result:
  "maxFromArray ptr = Max (insert int64_lowest (set ptr))
   \<and> (ptr \<noteq> [] \<and> int64_lowest \<le> Max (set ptr) \<longrightarrow> maxFromArray ptr = Max (set ptr))
   \<and> maxFromArray [] = - (2 ^ 63)
   \<and> (conv overlap parameters = [] \<longrightarrow>
        findFFTConvolutionAndMaxValue conv overlap parameters residual = residual - 2 ^ 63)"
  by (simp add: maxFromArray_Max maxFromArray_def maxLoop_eq_max
      findFFTConvolutionAndMaxValue_def int64_lowest_def)

theorem maxFromArray_result_witness:
  "maxFromArray [1, 3, 2] = 3 \<and> maxFromArray [- 7, - 9] = - 7
   \<and> findFFTConvolutionAndMaxValue exampleConv 0 () 10 = 13"
  using maxFromArray_result [of "[1, 3, 2]" exampleConv 0 "()" 10]
        maxFromArray_result [of "[- 7, - 9]" exampleConv 0 "()" 10]
  by (simp add: int64_lowest_def findFFTConvolutionAndMaxValue_def exampleConv_def)

subsection \<open>GetValue and GetDerivative\<close>

lemma fold_findFFT:
  "fold (\<lambda>overlap. findFFTConvolutionAndMaxValue conv overlap parameters) os r
     = r + (\<Sum>overlap\<leftarrow>os. maxFromArray (conv overlap parameters))"
  by (induction os arbitrary: r) (simp_all add: findFFTConvolutionAndMaxValue_def)

lemma GetValue_sum:
  "GetValue conv os parameters = (\<Sum>overlap\<leftarrow>os. maxFromArray (conv overlap parameters))\<^sup>2"
  by (simp add: GetValue_def fold_findFFT power2_eq_square Let_def)

text \<open>The order in which the tasks reach the lock does not change the value.\<close>

lemma GetValue_order_irrelevant:
  assumes "mset os = mset os'"
  shows "GetValue conv os parameters = GetValue conv os' parameters"
proof -
  have "mset (map (\<lambda>overlap. maxFromArray (conv overlap parameters)) os)
          = mset (map (\<lambda>overlap. maxFromArray (conv overlap parameters)) os')"
    using assms by (metis mset_map)
  then have "(\<Sum>overlap\<leftarrow>os. maxFromArray (conv overlap parameters))
               = (\<Sum>overlap\<leftarrow>os'. maxFromArray (conv overlap parameters))"
    by (metis sum_mset_sum_list)
  then show ?thesis by (simp add: GetValue_sum)
qed

text \<open>
  Claim C2. For every parameter vector, \<open>GetValue\<close> returns the square of the residual,
  and the residual is the sum over the overlap pairs of the value that \<open>maxFromArray\<close>
  finds in the pair's convolution output. That value is the greatest value of the output
  for every output that is not empty and whose greatest value is not below \<open>-2^63\<close>,
  as it is for the convolution of two grey-scale images.
\<close>

theorem GetValue_is_squared_sum_of_maxima:
  "GetValue conv m_Overlaps parameters
     = (\<Sum>overlap\<leftarrow>m_Overlaps. maxFromArray (conv overlap parameters))\<^sup>2
   \<and> ((\<forall>overlap \<in> set m_Overlaps.
          conv overlap parameters \<noteq> [] \<and> int64_lowest \<le> Max (set (conv overlap parameters)))
        \<longrightarrow> GetValue conv m_Overlaps parameters
              = (\<Sum>overlap\<leftarrow>m_Overlaps. Max (set (conv overlap parameters)))\<^sup>2)"
proof (intro conjI impI)
  show "GetValue conv m_Overlaps parameters
          = (\<Sum>overlap\<leftarrow>m_Overlaps. maxFromArray (conv overlap parameters))\<^sup>2"
    by (rule GetValue_sum)
next
  assume range: "\<forall>overlap \<in> set m_Overlaps.
          conv overlap parameters \<noteq> [] \<and> int64_lowest \<le> Max (set (conv overlap parameters))"
  have "maxFromArray (conv overlap parameters) = Max (set (conv overlap parameters))"
    if "overlap \<in> set m_Overlaps" for overlap
    using range that by (simp add: maxFromArray_Max)
  then have "(\<Sum>overlap\<leftarrow>m_Overlaps. maxFromArray (conv overlap parameters))
               = (\<Sum>overlap\<leftarrow>m_Overlaps. Max (set (conv overlap parameters)))"
    by (intro arg_cong [where f = sum_list] map_cong refl)
  then show "GetValue conv m_Overlaps parameters
               = (\<Sum>overlap\<leftarrow>m_Overlaps. Max (set (conv overlap parameters)))\<^sup>2"
    by (simp only: GetValue_sum)
qed

theorem GetValue_is_squared_sum_of_maxima_witness:
  "GetValue exampleConv [0, 1] () = (Max {1, 3, 2} + Max {5, 4})\<^sup>2
   \<and> GetValue exampleConv [0, 1] () = 64"
  using GetValue_is_squared_sum_of_maxima
          [where conv = exampleConv and m_Overlaps = "[0, 1]" and parameters = "()"]
  by (simp add: exampleConv_def int64_lowest_def)

text \<open>
  Claim C9. For every parameter vector \<open>GetDerivative\<close> throws: its result is the
  exception and never a derivative.
\<close>

theorem GetDerivative_always_throws:
  "GetDerivative parameters = Inl StdException \<and> (\<forall>d. GetDerivative parameters \<noteq> Inr d)"
  by (simp add: GetDerivative_def)

subsection \<open>updateRegionBounds\<close>



section \<open>Properties of the background estimation\<close>

subsection \<open>Loops over the pixel index\<close>

lemma fold_update_upt:
  "length (fold (\<lambda>t xs. xs[t := g t (xs ! t)]) [0..<n] xs) = length xs"
  "j < length xs \<Longrightarrow>
     fold (\<lambda>t xs. xs[t := g t (xs ! t)]) [0..<n] xs ! j = (if j < n then g j (xs ! j) else xs ! j)"
proof (induction n arbitrary: j)
  case 0
  { case 1 show ?case by simp }
  { case 2 show ?case by simp }
next
  case (Suc n)
  { case 1 show ?case using Suc(1) by simp }
  { case 2
    show ?case
    proof (cases "j = n")
      case True
      then show ?thesis using Suc(1) Suc(2) [of n] 2 by simp
    next
      case False
      then show ?thesis using Suc(1) Suc(2) [of j] 2 by auto
    qed }
qed

subsection \<open>Sum and average\<close>

lemma addPixel_nth:
  assumes "\<not> inThreshold lo hi (img ! j)"
  shows "fst (addPixel lo hi img t acc) ! j = fst acc ! j"
    and "snd (addPixel lo hi img t acc) ! j = snd acc ! j"
proof -
  have "fst (addPixel lo hi img t acc) ! j = fst acc ! j
      \<and> snd (addPixel lo hi img t acc) ! j = snd acc ! j"
  proof (cases "t = j")
    case True
    then show ?thesis using assms by (simp add: addPixel_def)
  next
    case False
    then show ?thesis by (simp add: addPixel_def)
  qed
  then show "fst (addPixel lo hi img t acc) ! j = fst acc ! j"
    and "snd (addPixel lo hi img t acc) ! j = snd acc ! j" by simp_all
qed

lemma addImage_nth:
  assumes "\<not> inThreshold lo hi (img ! j)"
  shows "fst (fold (addPixel lo hi img) ts acc) ! j = fst acc ! j
       \<and> snd (fold (addPixel lo hi img) ts acc) ! j = snd acc ! j"
proof (induction ts arbitrary: acc)
  case Nil
  show ?case by simp
next
  case (Cons t ts)
  show ?case by (simp add: Cons.IH addPixel_nth [OF assms])
qed

lemma addPixel_length:
  "length (fst (addPixel lo hi img t acc)) = length (fst acc)"
  "length (snd (addPixel lo hi img t acc)) = length (snd acc)"
  by (simp_all add: addPixel_def)

lemma addImage_length:
  "length (fst (fold (addPixel lo hi img) ts acc)) = length (fst acc)
 \<and> length (snd (fold (addPixel lo hi img) ts acc)) = length (snd acc)"
  by (induction ts arbitrary: acc) (simp_all add: addPixel_length)

lemma sumImages_nth:
  assumes "\<forall>img. UInt8Array img \<in> set arrays \<longrightarrow> \<not> inThreshold lo hi (img ! j)"
  shows "fst (sumImages lo hi n arrays acc) ! j = fst acc ! j
       \<and> snd (sumImages lo hi n arrays acc) ! j = snd acc ! j"
  using assms
proof (induction arrays arbitrary: acc)
  case Nil
  show ?case by simp
next
  case (Cons a as)
  show ?case
  proof (cases a)
    case (UInt8Array img)
    then have "\<not> inThreshold lo hi (img ! j)" using Cons.prems by simp
    then show ?thesis using Cons UInt8Array by (simp add: addImage_def addImage_nth)
  next
    case OtherArray
    then show ?thesis using Cons by simp
  qed
qed

lemma sumImages_length:
  "length (fst (sumImages lo hi n arrays acc)) = length (fst acc)
 \<and> length (snd (sumImages lo hi n arrays acc)) = length (snd acc)"
proof (induction arrays arbitrary: acc)
  case Nil
  show ?case by simp
next
  case (Cons a as)
  show ?case by (cases a) (simp_all add: Cons.IH addImage_def addImage_length)
qed

lemma averageBackground_nth:
  assumes "j < totalPoints" and "j < length background"
  shows "averageBackground totalPoints counter background ! j = ddiv (background ! j) (counter ! j)"
  using assms fold_update_upt(2) [of j background "\<lambda>t v. ddiv v (counter ! t)" totalPoints]
  by (simp add: averageBackground_def)

text \<open>
  Claim C5. At a pixel position where no source array has a value within
  \<open>[lowThresh, highThresh]\<close> the count stays 0, the averaging step divides the sum 0 by
  that count, and the background value at the position is NaN, which is not finite.
\<close>

theorem zero_count_gives_non_finite_average:
  assumes "j < totalPoints"
    and "\<forall>img. UInt8Array img \<in> set arrays \<longrightarrow>
           length img = totalPoints \<and> \<not> inThreshold lo hi (img ! j)"
  shows "contributingCount lo hi totalPoints arrays ! j = Num 0
       \<and> averagedBackground lo hi totalPoints arrays ! j = NaN
       \<and> \<not> isFinite (averagedBackground lo hi totalPoints arrays ! j)"
proof -
  let ?acc = "(replicate totalPoints (Num 0), replicate totalPoints (Num 0))"
  let ?s = "sumImages lo hi totalPoints arrays ?acc"
  have out: "\<forall>img. UInt8Array img \<in> set arrays \<longrightarrow> \<not> inThreshold lo hi (img ! j)"
    using assms(2) by blast
  have nth: "fst ?s ! j = Num 0" "snd ?s ! j = Num 0"
    using sumImages_nth [OF out, of totalPoints ?acc] assms(1) by simp_all
  have len: "length (fst ?s) = totalPoints"
    using sumImages_length [of lo hi totalPoints arrays ?acc] by simp
  have avg: "averagedBackground lo hi totalPoints arrays ! j = ddiv (Num 0) (Num 0)"
    using averageBackground_nth [of j totalPoints "fst ?s" "snd ?s"] assms(1) len nth
    by (simp add: averagedBackground_def Let_def)
  show ?thesis using nth(2) avg by (simp add: contributingCount_def)
qed

theorem zero_count_gives_non_finite_average_witness:
  "contributingCount 10 20 2 [UInt8Array [5, 15], UInt8Array [30, 17]] ! 0 = Num 0
   \<and> averagedBackground 10 20 2 [UInt8Array [5, 15], UInt8Array [30, 17]] ! 0 = NaN
   \<and> \<not> isFinite (averagedBackground 10 20 2 [UInt8Array [5, 15], UInt8Array [30, 17]] ! 0)"
  using zero_count_gives_non_finite_average
          [of 0 2 "[UInt8Array [5, 15], UInt8Array [30, 17]]" 10 20]
  by (simp add: inThreshold_def)

subsection \<open>The design matrix\<close>

lemma designRow_in_range:
  assumes "0 < dim0" and "i div dim0 < 46341" and "i mod dim0 < 46341"
  shows "designRow dim0 i =
           [Num 1, Num (real (i div dim0)), Num (real (i mod dim0)),
            Num (real ((i div dim0) * (i mod dim0))),
            Num (real ((i div dim0) * (i div dim0))),
            Num (real ((i mod dim0) * (i mod dim0)))]"
proof -
  have bound: "a * b < 2 ^ 31" if "a < 46341" "b < 46341" for a b :: nat
  proof -
    have "a * b \<le> 46340 * 46340" using that by (intro mult_mono) simp_all
    then show ?thesis by simp
  qed
  have conv: "sint (word_of_nat k :: 32 word) = int k" if "k < 2 ^ 31" for k :: nat
    using that by (simp add: signed_of_nat signed_take_bit_int_eq_self)
  have x: "i div dim0 < 2 ^ 31" and y: "i mod dim0 < 2 ^ 31"
    using assms by simp_all
  have xy: "i div dim0 * (i mod dim0) < 2 ^ 31" and xx: "i div dim0 * (i div dim0) < 2 ^ 31"
    and yy: "i mod dim0 * (i mod dim0) < 2 ^ 31"
    using assms bound by blast+
  have mul: "(word_of_nat a :: 32 word) * word_of_nat b = word_of_nat (a * b)" for a b
    by simp
  show ?thesis
    unfolding designRow_def Let_def int_to_double_def mul
    by (simp only: conv [OF x] conv [OF y] conv [OF xy] conv [OF xx] conv [OF yy]) simp
qed

lemma rightHandSide_nth:
  assumes "i < totalPoints"
  shows "rightHandSide totalPoints background ! i = background ! i"
  using assms by (simp add: rightHandSide_def)

text \<open>
  Claim C4. Row \<open>i\<close> of the design matrix is \<open>[1, x, y, x*y, x\<^sup>2, y\<^sup>2]\<close> with
  \<open>x = i div w\<close> and \<open>y = i mod w\<close> as long as the squares fit 32 bits (lemma
  \<open>designRow_in_range\<close>), and the right-hand side entry is the averaged background at
  \<open>i\<close> (lemma \<open>rightHandSide_nth\<close>). It is not that row for every index: the products
  are computed in \<open>int\<close>. In a row of 50000 pixels, at index 46341, \<open>y\<close> is 46341 and
  \<open>y * y = 2147488281\<close> does not fit; the entry stored is \<open>-2147479015\<close>.
\<close>

theorem designRow_square_overflows:
  "designRow 50000 46341 = [Num 1, Num 0, Num 46341, Num 0, Num 0, Num (- 2147479015)]
   \<and> (46341 :: int) * 46341 = 2147488281"
  by (simp add: designRow_def int_to_double_def Let_def)

subsection \<open>The centred surface\<close>









subsection \<open>Subtract mode\<close>

text \<open>
  A \<open>uint8_t\<close> is never below 0 or above 255, so neither comparison after the store
  changes the pixel: what is stored is the converted difference.
\<close>

lemma subtractPixel_stores_conversion:
  "subtractPixel surface pixel = double_to_uint8 (dsub (uint8_to_double pixel) surface)"
proof -
  have "\<not> 255 < uint v" for v :: "8 word"
    using uint_lt2p [of v] by simp
  then show ?thesis by (simp add: subtractPixel_def Let_def)
qed

lemma subtractBackground_nth:
  assumes "j < totalPoints" and "j < length img"
  shows "subtractBackground lo hi totalPoints Bcalc img ! j
           = (if inThreshold lo hi (img ! j)
              then double_to_uint8 (dsub (uint8_to_double (img ! j)) (Bcalc ! j))
              else img ! j)"
proof -
  have step: "(\<lambda>t xs. if inThreshold lo hi (xs ! t)
                       then xs[t := subtractPixel (Bcalc ! t) (xs ! t)] else xs)
            = (\<lambda>t xs. xs[t := (if inThreshold lo hi (xs ! t)
                                then subtractPixel (Bcalc ! t) (xs ! t) else xs ! t)])"
    by (intro ext) simp
  show ?thesis
    unfolding subtractBackground_def step
    using assms
      fold_update_upt(2) [of j img
        "\<lambda>t v. if inThreshold lo hi v then subtractPixel (Bcalc ! t) v else v" totalPoints]
    by (simp add: subtractPixel_stores_conversion)
qed

text \<open>
  Claim C1. In subtract mode a pixel within the thresholds becomes the converted
  difference \<open>input - surface\<close> (lemma \<open>subtractBackground_nth\<close>); the difference is not
  clamped to \<open>[0, 255]\<close>. With thresholds \<open>[0, 255]\<close>, input 200 and surface -100 the
  difference is 300 and the pixel stored is 44, not 255.
\<close>

theorem subtract_mode_does_not_clamp:
  "subtractBackground 0 255 1 [Num (- 100)] [200] = [44]
   \<and> subtractBackground 0 255 1 [Num (- 100)] [200] \<noteq> [255]
   \<and> subtractPixel (Num (- 100)) 200 = 44"
  by (simp add: subtractBackground_def subtractPixel_def inThreshold_def double_to_uint8_def
      dsub_def uint8_to_double_def truncate_double_def Let_def)

subsection \<open>dataCheck and execute\<close>

lemma checkArray_keeps:
  "attributeMatrix (snd (checkArray a s)) = attributeMatrix (snd s)"
  "BackgroundImage (snd (checkArray a s)) = BackgroundImage (snd s)"
  "m_SubtractBackground (snd (checkArray a s)) = m_SubtractBackground (snd s)"
  "m_DivideBackground (snd (checkArray a s)) = m_DivideBackground (snd s)"
  by (simp_all add: checkArray_def reportError_def Let_def)

lemma fold_checkArray_keeps:
  "attributeMatrix (snd (fold checkArray as s)) = attributeMatrix (snd s)
 \<and> BackgroundImage (snd (fold checkArray as s)) = BackgroundImage (snd s)
 \<and> m_SubtractBackground (snd (fold checkArray as s)) = m_SubtractBackground (snd s)
 \<and> m_DivideBackground (snd (fold checkArray as s)) = m_DivideBackground (snd s)"
  by (induction as arbitrary: s) (simp_all add: checkArray_keeps)


lemma checkArray_error:
  "errorCondition (snd (checkArray a s))
     = (if a = OtherArray then - 76001 else errorCondition (snd s))"
  by (cases a) (simp_all add: checkArray_def reportError_def Let_def)

lemma fold_checkArray_error:
  "errorCondition (snd (fold checkArray as s))
     = (if OtherArray \<in> set as then - 76001 else errorCondition (snd s))"
proof (induction as rule: rev_induct)
  case Nil
  show ?case by simp
next
  case (snoc a as)
  show ?case by (simp add: checkArray_error snoc.IH)
qed

lemma reportError_fields:
  "errorCondition (reportError code f) = code"
  "attributeMatrix (reportError code f) = attributeMatrix f"
  "BackgroundImage (reportError code f) = BackgroundImage f"
  "errorMessages (reportError code f) = errorMessages f @ [code]"
  by (simp_all add: reportError_def)

lemma execute_after_failed_check:
  assumes "dataCheck f = Inr f'" and "errorCondition f' < 0"
  shows "execute solve f = Inr f'"
  using assms by (simp add: execute_def)

lemma dataCheck_both_modes:
  assumes "m_SubtractBackground f" and "m_DivideBackground f" and "attributeMatrix f = Some am"
  shows "\<exists>f'. dataCheck f = Inr f' \<and> errorCondition f' = - 76002
             \<and> - 76002 \<in> set (errorMessages f')
             \<and> attributeMatrix f' = attributeMatrix f \<and> BackgroundImage f' = BackgroundImage f"
proof -
  let ?f = "f\<lparr>errorCondition := 0, m_TotalPoints := 0\<rparr>"
  let ?f1 = "snd (fold checkArray (map snd (attributeArrays am)) (None, ?f))"
  have keeps: "attributeMatrix ?f1 = attributeMatrix f" "BackgroundImage ?f1 = BackgroundImage f"
    "m_SubtractBackground ?f1" "m_DivideBackground ?f1"
    using fold_checkArray_keeps [of "map snd (attributeArrays am)" "(None, ?f)"] assms by simp_all
  have "dataCheck f = Inr (reportError (- 76002) ?f1)"
    using assms(3) keeps(3,4) by (simp add: dataCheck_def Let_def reportError_fields)
  then show ?thesis using keeps(1,2) by (simp add: reportError_fields)
qed

lemma dataCheck_missing_matrix:
  assumes "attributeMatrix f = None"
  shows "dataCheck f = Inr (reportError (- 76000) (f\<lparr>errorCondition := 0, m_TotalPoints := 0\<rparr>))"
  using assms by (simp add: dataCheck_def Let_def)

lemma dataCheck_wrong_type:
  assumes "attributeMatrix f = Some am" and "OtherArray \<in> snd ` set (attributeArrays am)"
  shows "\<exists>f'. dataCheck f = Inr f' \<and> errorCondition f' \<in> {- 76001, - 76002}
             \<and> attributeMatrix f' = attributeMatrix f \<and> BackgroundImage f' = BackgroundImage f"
proof -
  let ?f = "f\<lparr>errorCondition := 0, m_TotalPoints := 0\<rparr>"
  let ?f1 = "snd (fold checkArray (map snd (attributeArrays am)) (None, ?f))"
  let ?f2 = "if m_SubtractBackground ?f1 \<and> m_DivideBackground ?f1
             then reportError (- 76002) ?f1 else ?f1"
  have keeps: "attributeMatrix ?f1 = attributeMatrix f" "BackgroundImage ?f1 = BackgroundImage f"
    using fold_checkArray_keeps [of "map snd (attributeArrays am)" "(None, ?f)"] by simp_all
  have err1: "errorCondition ?f1 = - 76001"
    using assms(2) by (simp add: fold_checkArray_error)
  have err2: "errorCondition ?f2 \<in> {- 76001, - 76002}"
    using err1 by (simp add: reportError_fields)
  then have neg: "errorCondition ?f2 < 0" by auto
  have "dataCheck f = Inr ?f2"
    using assms(1) neg unfolding dataCheck_def Let_def by simp
  moreover have "attributeMatrix ?f2 = attributeMatrix f" "BackgroundImage ?f2 = BackgroundImage f"
    using keeps by (simp_all add: reportError_fields)
  ultimately show ?thesis using err2 by blast
qed










text \<open>
  Claim C7, as first stated: with both SubtractBackground and DivideBackground selected
  the filter reports -76002. It does not when the attribute matrix is missing:
  \<open>dataCheck\<close> then reports -76000 and returns before it looks at the two modes.
\<close>

theorem missing_matrix_reports_76000_only:
  "m_SubtractBackground
     \<lparr>m_lowThresh = 0, m_highThresh = 255, m_SubtractBackground = True,
      m_DivideBackground = True, m_TotalPoints = 0, errorCondition = 0, errorMessages = [],
      attributeMatrix = None, creationError = 0, BackgroundImage = None\<rparr>
   \<and> m_DivideBackground
     \<lparr>m_lowThresh = 0, m_highThresh = 255, m_SubtractBackground = True,
      m_DivideBackground = True, m_TotalPoints = 0, errorCondition = 0, errorMessages = [],
      attributeMatrix = None, creationError = 0, BackgroundImage = None\<rparr>
   \<and> execute constantSolver
     \<lparr>m_lowThresh = 0, m_highThresh = 255, m_SubtractBackground = True,
      m_DivideBackground = True, m_TotalPoints = 0, errorCondition = 0, errorMessages = [],
      attributeMatrix = None, creationError = 0, BackgroundImage = None\<rparr>
   = Inr \<lparr>m_lowThresh = 0, m_highThresh = 255, m_SubtractBackground = True,
          m_DivideBackground = True, m_TotalPoints = 0, errorCondition = - 76000,
          errorMessages = [- 76000],
          attributeMatrix = None, creationError = 0, BackgroundImage = None\<rparr>"
  by (simp add: execute_def dataCheck_def reportError_def Let_def)

text \<open>
  Claim C7, amended. If both SubtractBackground and DivideBackground are selected and the
  selected attribute matrix exists, the filter reports -76002, that code is the error
  condition when \<open>execute\<close> returns, and neither the arrays of the attribute matrix nor
  the background image have changed.
\<close>

theorem both_modes_abort_with_76002:
  assumes "m_SubtractBackground f" and "m_DivideBackground f" and "attributeMatrix f = Some am"
  shows "\<exists>f'. execute solve f = Inr f' \<and> errorCondition f' = - 76002
             \<and> - 76002 \<in> set (errorMessages f')
             \<and> attributeMatrix f' = attributeMatrix f \<and> BackgroundImage f' = BackgroundImage f"
proof -
  obtain f' where f': "dataCheck f = Inr f'" "errorCondition f' = - 76002"
      "- 76002 \<in> set (errorMessages f')"
      "attributeMatrix f' = attributeMatrix f" "BackgroundImage f' = BackgroundImage f"
    using dataCheck_both_modes [OF assms] by blast
  have "execute solve f = Inr f'"
    using f'(1,2) by (simp add: execute_after_failed_check)
  then show ?thesis using f' by simp
qed

theorem both_modes_abort_with_76002_witness:
  "execute constantSolver
     \<lparr>m_lowThresh = 0, m_highThresh = 255, m_SubtractBackground = True,
      m_DivideBackground = True, m_TotalPoints = 0, errorCondition = 0, errorMessages = [],
      attributeMatrix = Some \<lparr>tupleDimensions = (2, 1, 1),
                               attributeArrays = [(''a'', UInt8Array [1, 2]), (''b'', OtherArray)]\<rparr>,
      creationError = 0, BackgroundImage = None\<rparr>
   = Inr \<lparr>m_lowThresh = 0, m_highThresh = 255, m_SubtractBackground = True,
          m_DivideBackground = True, m_TotalPoints = 0, errorCondition = - 76002,
          errorMessages = [- 76001, - 76002],
          attributeMatrix = Some \<lparr>tupleDimensions = (2, 1, 1),
                                   attributeArrays = [(''a'', UInt8Array [1, 2]), (''b'', OtherArray)]\<rparr>,
          creationError = 0, BackgroundImage = None\<rparr>"
  using both_modes_abort_with_76002
          [of "\<lparr>m_lowThresh = 0, m_highThresh = 255, m_SubtractBackground = True,
                m_DivideBackground = True, m_TotalPoints = 0, errorCondition = 0, errorMessages = [],
                attributeMatrix = Some \<lparr>tupleDimensions = (2, 1, 1),
                     attributeArrays = [(''a'', UInt8Array [1, 2]), (''b'', OtherArray)]\<rparr>,
                creationError = 0, BackgroundImage = None\<rparr>"
              "\<lparr>tupleDimensions = (2, 1, 1),
                attributeArrays = [(''a'', UInt8Array [1, 2]), (''b'', OtherArray)]\<rparr>"
              constantSolver]
  by (simp add: execute_def dataCheck_def checkArray_def reportError_def Let_def)

text \<open>
  Claim C8. A run without source images is to signal an error to the caller. With an
  attribute matrix that holds no array the loop over the names sets no error, the test
  of the error condition lets the run pass, and \<open>dataCheck\<close> calls
  \<open>imagePtr->getNumberOfTuples()\<close> on the null pointer: the run faults, in \<open>dataCheck\<close>
  and so in \<open>execute\<close>, and no error code reaches the caller.
\<close>

theorem no_images_is_not_reported:
  "dataCheck
     \<lparr>m_lowThresh = 0, m_highThresh = 255, m_SubtractBackground = False,
      m_DivideBackground = False, m_TotalPoints = 0, errorCondition = 0, errorMessages = [],
      attributeMatrix = Some \<lparr>tupleDimensions = (2, 1, 1), attributeArrays = []\<rparr>,
      creationError = 0, BackgroundImage = None\<rparr>
   = Inl NullPointerDereference
   \<and> execute constantSolver
     \<lparr>m_lowThresh = 0, m_highThresh = 255, m_SubtractBackground = False,
      m_DivideBackground = False, m_TotalPoints = 0, errorCondition = 0, errorMessages = [],
      attributeMatrix = Some \<lparr>tupleDimensions = (2, 1, 1), attributeArrays = []\<rparr>,
      creationError = 0, BackgroundImage = None\<rparr>
   = Inl NullPointerDereference"
  by (simp add: execute_def dataCheck_def Let_def)

end
